theory Spec2Isabelle
  imports Main
begin

section \<open>Common vocabulary: errors, resources, observable events\<close>

text \<open>
  A Go \<^verbatim>\<open>error\<close> value is either a given error or an error wrapped with a prefix
  (\<^verbatim>\<open>fmt.Errorf("prefix: %w", err)\<close>). A nil error is \<open>None\<close> of \<open>error option\<close>.
\<close>

datatype error = Err string | Wrap string error

text \<open>A run-time panic of the Go runtime; a function either panics or returns.\<close>

datatype panic = SliceBoundsOutOfRange nat nat | NilDereference

datatype 'a go = Panics panic | Returns 'a

text \<open>
  The objects of the libraries the code talks to (net, crypto/tls, x/crypto/ssh), by identity.
  \<open>Tls n\<close> is the \<^verbatim>\<open>tls.Conn\<close> wrapped around \<open>Raw n\<close>; \<open>Client n\<close> and \<open>SrvConn n\<close> are the
  SSH client and SSH server connection built over \<open>Raw n\<close>.
\<close>

datatype resource =
    Raw nat
  | Tls nat
  | Client nat
  | Session nat
  | Pipe nat
  | Chan nat
  | SrvConn nat
  | Stream nat

type_synonym time = nat

text \<open>
  A \<^verbatim>\<open>context.Context\<close> as far as the code reads it: its deadline, if any, and whether it is
  already cancelled or expired.
\<close>

record ctx =
  Deadline :: "time option"
  Done :: bool

text \<open>An incoming SSH channel request (\<^verbatim>\<open>ssh.Request\<close>); the payload is a byte string.\<close>

record request =
  Type :: string
  WantReply :: bool
  Payload :: string

text \<open>The reason codes of \<^verbatim>\<open>ssh.RejectionReason\<close>.\<close>

datatype rejection_reason = Prohibited | ConnectionFailed | UnknownChannelType | ResourceShortage

text \<open>
  What a run does to the outside: calls on library objects and trace hooks, in program order.
  The elapsed time given to the \<^verbatim>\<open>...Done\<close> hooks is real time and is left out.
  \<open>SetDeadline r None\<close> is \<^verbatim>\<open>SetDeadline(time.Time{})\<close>, the zero time.
  \<open>Reject n reason message\<close> is \<^verbatim>\<open>Reject(reason, message)\<close> on the channel-open request \<open>n\<close>,
  \<open>MergeDefaults\<close> the call of \<^verbatim>\<open>mergo.Merge\<close>, \<open>EstablishSession\<close> the call of
  \<^verbatim>\<open>NewSession\<close>; the others are named after the method or trace hook called.
\<close>

datatype event =
    Close resource
  | SetDeadline resource "time option"
  | Handshake resource
  | Reject nat rejection_reason string
  | Reply request bool
  | MergeDefaults
  | EstablishSession
  | DialStart string
  | DialDone string "error option"
  | ConnectStart string
  | ConnectDone string "error option"
  | ConnectionClosed string "error option"
  | AcceptDone "resource option" "error option"
  | SSHConnected string
  | TLSConnected string
  | SubsystemReady string

text \<open>
  The values behind \<^verbatim>\<open>io.ReadWriteCloser\<close> that the dialers hand out. Struct fields that are
  pointers or interfaces can be nil, hence the options.
  \<^item> \<open>SshConn client session writer\<close>: \<^verbatim>\<open>client.sshConn\<close>
  \<^item> \<open>SshSessionConn session writer\<close>: \<^verbatim>\<open>client.sshSessionConn\<close>
  \<^item> \<open>TlsConn n\<close>: a \<^verbatim>\<open>*tls.Conn\<close>, the resource \<open>Tls n\<close>
  \<^item> \<open>MgrCallhomeConn client session writer\<close>: \<^verbatim>\<open>sshCallhomeConn\<close> of the Call-Home listener
  \<^item> \<open>DevCallhomeConn conn channel\<close>: \<^verbatim>\<open>sshCallhomeConn\<close> of the Call-Home server dialer
  \<^item> \<open>OtherConn n\<close>: any other stream, the resource \<open>Stream n\<close>
\<close>

datatype conn =
    SshConn "nat option" "nat option" "nat option"
  | SshSessionConn "nat option" "nat option"
  | TlsConn nat
  | MgrCallhomeConn nat nat "nat option"
  | DevCallhomeConn nat nat
  | OtherConn nat

section \<open>Call-Home server dialer over SSH (device role)\<close>

text \<open>Go's \<^verbatim>\<open>s[n:]\<close> on a byte slice: a panic when \<open>n\<close> exceeds the length.\<close>

definition slice_from :: "nat \<Rightarrow> 'a list \<Rightarrow> panic + 'a list" where
  "slice_from n s = (if n \<le> length s then Inr (drop n s) else Inl (SliceBoundsOutOfRange n (length s)))"

text \<open>The inner loop after the grant: \<^verbatim>\<open>for r := range requests { r.Reply(false, nil) }\<close>.\<close>

fun reply_all_false :: "request list \<Rightarrow> event list" where
  "reply_all_false [] = []"
| "reply_all_false (r # rs) = Reply r False # reply_all_false rs"

text \<open>
  The goroutine of \<^verbatim>\<open>handleChannels\<close> over the requests that arrive before the request
  stream closes. It returns the replies it made and what it sent on \<^verbatim>\<open>subsystemChan\<close>;
  \<^verbatim>\<open>&&\<close> evaluates \<^verbatim>\<open>req.Payload[4:]\<close> only for a request of type "subsystem".
\<close>

fun serve_requests :: "request list \<Rightarrow> event list \<times> bool go" where
  "serve_requests [] = ([], Returns False)"
| "serve_requests (req # rs) =
     (if Type req = ''subsystem'' then
        (case slice_from 4 (Payload req) of
           Inl p \<Rightarrow> ([], Panics p)
         | Inr name \<Rightarrow>
             if name = ''netconf'' then (Reply req True # reply_all_false rs, Returns True)
             else (case serve_requests rs of (evs, r) \<Rightarrow> (Reply req False # evs, r)))
      else (case serve_requests rs of (evs, r) \<Rightarrow> (Reply req False # evs, r)))"

text \<open>
  An incoming channel-open request (\<^verbatim>\<open>ssh.NewChannel\<close>): its type, and what
  \<^verbatim>\<open>Accept()\<close> gives: an error, or the channel's request stream.
\<close>

record newchannel =
  ChannelId :: nat
  ChannelType :: string
  Accept :: "error + request list"

text \<open>
  The outcomes of the calls into the libraries (net, crypto/tls, x/crypto/ssh), which the
  code cannot influence: every definition below is stated for an arbitrary such environment.
  \<^item> \<open>netDial\<close>: \<^verbatim>\<open>DialContext(ctx, "tcp", target)\<close>, the raw connection or an error
  \<^item> \<open>listenerAccept\<close>: \<^verbatim>\<open>listener.Accept()\<close>
  \<^item> \<open>sshDial\<close>: \<^verbatim>\<open>ssh.Dial("tcp", target, config)\<close>, the SSH client or an error
  \<^item> \<open>sshClientHandshake\<close>: \<^verbatim>\<open>ssh.NewClientConn\<close> on a raw connection
  \<^item> \<open>sshServerHandshake\<close>: \<^verbatim>\<open>ssh.NewServerConn\<close> on a raw connection: an error, or the
    channel-open requests that arrive before the channel stream closes
  \<^item> \<open>newSession\<close>: \<^verbatim>\<open>client.NewSession()\<close>
  \<^item> \<open>requestSubsystem\<close>: \<^verbatim>\<open>session.RequestSubsystem("netconf")\<close>
  \<^item> \<open>tlsClientHandshake\<close>, \<open>tlsServerHandshake\<close>: \<^verbatim>\<open>Handshake()\<close> of the
    \<^verbatim>\<open>tls.Client\<close> / \<^verbatim>\<open>tls.Server\<close> wrapped around a raw connection
  \<^item> \<open>closeErr\<close>: what \<^verbatim>\<open>Close()\<close> of a library object returns
  \<^item> \<open>remoteAddr\<close>: \<^verbatim>\<open>RemoteAddr().String()\<close>
\<close>

record env =
  netDial :: "ctx \<Rightarrow> string \<Rightarrow> error + nat"
  listenerAccept :: "error + nat"
  sshDial :: "string \<Rightarrow> error + nat"
  sshClientHandshake :: "nat \<Rightarrow> error option"
  sshServerHandshake :: "nat \<Rightarrow> error + newchannel list"
  newSession :: "nat \<Rightarrow> error + nat"
  requestSubsystem :: "nat \<Rightarrow> error option"
  tlsClientHandshake :: "nat \<Rightarrow> error option"
  tlsServerHandshake :: "nat \<Rightarrow> error option"
  closeErr :: "resource \<Rightarrow> error option"
  remoteAddr :: "resource \<Rightarrow> string"

text \<open>
  \<^verbatim>\<open>SSHDialer.handleChannels\<close> over the channel-open requests that arrive before the
  channel stream closes. The result is the main goroutine's events, the request goroutine's
  replies (the two run concurrently once the grant is signalled, so they are kept apart),
  and the outcome. A panic in the request goroutine ends the process.
\<close>

fun handleChannels :: "string \<Rightarrow> nat \<Rightarrow> newchannel list \<Rightarrow> event list \<times> event list \<times> (error + conn) go" where
  "handleChannels target sshConn [] =
     ([], [], Returns (Inl (Err ''callhome: no session channel received'')))"
| "handleChannels target sshConn (newChannel # chans) =
     (if ChannelType newChannel \<noteq> ''session'' then
        (case handleChannels target sshConn chans of
           (evs, reps, out) \<Rightarrow>
             (Reject (ChannelId newChannel) UnknownChannelType ''unknown channel type'' # evs,
              reps, out))
      else
        (case Accept newChannel of
           Inl err \<Rightarrow> ([], [], Returns (Inl (Wrap ''callhome: failed to accept channel'' err)))
         | Inr requests \<Rightarrow>
             (case serve_requests requests of
                (reps, Panics p) \<Rightarrow> ([], reps, Panics p)
              | (reps, Returns False) \<Rightarrow>
                  ([Close (Chan (ChannelId newChannel))], reps,
                   Returns (Inl (Err ''callhome: netconf subsystem not requested'')))
              | (reps, Returns True) \<Rightarrow>
                  ([SubsystemReady target], reps,
                   Returns (Inr (DevCallhomeConn sshConn (ChannelId newChannel)))))))"

text \<open>
  \<^verbatim>\<open>SSHDialer.Dial\<close> of the Call-Home server. The deferred \<^verbatim>\<open>DialDone\<close> reads the
  variable \<^verbatim>\<open>err\<close>, which the result of \<^verbatim>\<open>handleChannels\<close> is never assigned to; it
  does not run when the process panics. Out-of-band global requests are discarded.
\<close>

definition dev_SSHDialer_Dial ::
  "env \<Rightarrow> ctx \<Rightarrow> string \<Rightarrow> event list \<times> event list \<times> (error + conn) go" where
  "dev_SSHDialer_Dial env c target =
     (case netDial env c target of
        Inl err \<Rightarrow>
          ([DialStart target, DialDone target (Some err)], [],
           Returns (Inl (Wrap ''callhome: failed to connect to client'' err)))
      | Inr conn \<Rightarrow>
          (case sshServerHandshake env conn of
             Inl err \<Rightarrow>
               ([DialStart target, Close (Raw conn), DialDone target (Some err)], [],
                Returns (Inl (Wrap ''callhome: SSH handshake failed'' err)))
           | Inr chans \<Rightarrow>
               (case handleChannels target conn chans of
                  (evs, reps, Panics p) \<Rightarrow>
                    (DialStart target # SSHConnected target # evs, reps, Panics p)
                | (evs, reps, Returns r) \<Rightarrow>
                    (DialStart target # SSHConnected target # evs @ [DialDone target None], reps,
                     Returns r))))"

text \<open>Vocabulary for the request streams: a request that asks for the "netconf" subsystem,
  and a request whose payload the goroutine can slice.\<close>

definition names_netconf :: "request \<Rightarrow> bool" where
  "names_netconf req =
     (Type req = ''subsystem'' \<and> 4 \<le> length (Payload req) \<and> drop 4 (Payload req) = ''netconf'')"

definition payload_sliceable :: "request \<Rightarrow> bool" where
  "payload_sliceable req = (Type req \<noteq> ''subsystem'' \<or> 4 \<le> length (Payload req))"

definition reject_unknown :: "newchannel \<Rightarrow> event" where
  "reject_unknown nc = Reject (ChannelId nc) UnknownChannelType ''unknown channel type''"

section \<open>Closing the streams the dialers hand out\<close>

text \<open>
  One step of \<^verbatim>\<open>sshConn.Close\<close> and \<^verbatim>\<open>sshSessionConn.Close\<close>:
  \<^verbatim>\<open>if x != nil { if err := x.Close(); err != nil && firstErr == nil { firstErr = err } }\<close>.
\<close>

definition close_keep_first ::
  "env \<Rightarrow> resource option \<Rightarrow> event list \<times> error option \<Rightarrow> event list \<times> error option" where
  "close_keep_first env x st =
     (case x of
        None \<Rightarrow> st
      | Some r \<Rightarrow>
          (case st of
             (evs, firstErr) \<Rightarrow>
               (evs @ [Close r],
                (case closeErr env r of
                   Some err \<Rightarrow> (if firstErr = None then Some err else firstErr)
                 | None \<Rightarrow> firstErr))))"

text \<open>
  \<^verbatim>\<open>Close()\<close> of each stream. The two Call-Home wrappers return at the first error;
  \<^verbatim>\<open>sshConn\<close> and \<^verbatim>\<open>sshSessionConn\<close> go on and keep the first error.
\<close>

fun conn_Close :: "env \<Rightarrow> conn \<Rightarrow> event list \<times> error option" where
  "conn_Close env (SshConn client session writer) =
     close_keep_first env (map_option Client client)
       (close_keep_first env (map_option Session session)
          (close_keep_first env (map_option Pipe writer) ([], None)))"
| "conn_Close env (SshSessionConn session writer) =
     close_keep_first env (map_option Session session)
       (close_keep_first env (map_option Pipe writer) ([], None))"
| "conn_Close env (TlsConn n) = ([Close (Tls n)], closeErr env (Tls n))"
| "conn_Close env (MgrCallhomeConn client session writer) =
     (let w = (case writer of None \<Rightarrow> ([], None) | Some p \<Rightarrow> ([Close (Pipe p)], closeErr env (Pipe p)))
      in case snd w of
           Some err \<Rightarrow> (fst w, Some err)
         | None \<Rightarrow>
             (case closeErr env (Session session) of
                Some err \<Rightarrow> (fst w @ [Close (Session session)], Some err)
              | None \<Rightarrow>
                  (fst w @ [Close (Session session), Close (Client client)],
                   closeErr env (Client client))))"
| "conn_Close env (DevCallhomeConn sshConn channel) =
     (case closeErr env (Chan channel) of
        Some err \<Rightarrow> ([Close (Chan channel)], Some err)
      | None \<Rightarrow> ([Close (Chan channel), Close (SrvConn sshConn)], closeErr env (SrvConn sshConn)))"
| "conn_Close env (OtherConn n) = ([Close (Stream n)], closeErr env (Stream n))"

section \<open>The client's dialers\<close>

text \<open>
  The implementations of \<^verbatim>\<open>client.Dialer\<close>:
  \<^item> \<open>SSHDialer target\<close>, \<open>TLSDialer target\<close>: dial afresh (the SSH and TLS configurations are
    opaque to this code and left out)
  \<^item> \<open>SSHClientDialer client\<close>: over an existing \<^verbatim>\<open>*ssh.Client\<close>
  \<^item> \<open>TLSConnDialer n\<close>: over an existing \<^verbatim>\<open>*tls.Conn\<close>
  \<^item> \<open>CallhomeSSHConnDialer conn addr\<close>, \<open>CallhomeTLSConnDialer n\<close>: over a connection the
    Call-Home listener accepted (\<^verbatim>\<open>callhome.SSHConnDialer\<close>, \<^verbatim>\<open>callhome.TLSConnDialer\<close>)
\<close>

datatype dialer =
    SSHDialer string
  | SSHClientDialer nat
  | TLSDialer string
  | TLSConnDialer nat
  | CallhomeSSHConnDialer "conn option" string
  | CallhomeTLSConnDialer nat

fun Dialer_Target :: "env \<Rightarrow> dialer \<Rightarrow> string" where
  "Dialer_Target env (SSHDialer target) = target"
| "Dialer_Target env (SSHClientDialer client) = remoteAddr env (Client client)"
| "Dialer_Target env (TLSDialer target) = target"
| "Dialer_Target env (TLSConnDialer n) = remoteAddr env (Tls n)"
| "Dialer_Target env (CallhomeSSHConnDialer conn addr) = addr"
| "Dialer_Target env (CallhomeTLSConnDialer n) = remoteAddr env (Tls n)"

text \<open>\<^verbatim>\<open>SSHDialer.Dial\<close> of the client: the pair that Go returns, stream and error.\<close>

definition SSHDialer_Dial :: "env \<Rightarrow> string \<Rightarrow> event list \<times> conn option \<times> error option" where
  "SSHDialer_Dial env target =
     (case sshDial env target of
        Inl err \<Rightarrow> ([DialStart target, DialDone target (Some err)], None, Some err)
      | Inr client \<Rightarrow>
          (case newSession env client of
             Inl err \<Rightarrow>
               ([DialStart target, Close (Client client), DialDone target (Some err)], None, Some err)
           | Inr session \<Rightarrow>
               (case requestSubsystem env session of
                  Some err \<Rightarrow>
                    ([DialStart target, Close (Session session), Close (Client client),
                      DialDone target (Some err)], None, Some err)
                | None \<Rightarrow>
                    ([DialStart target, DialDone target None],
                     Some (SshConn (Some client) (Some session) None), None))))"

definition SSHClientDialer_Dial :: "env \<Rightarrow> nat \<Rightarrow> event list \<times> conn option \<times> error option" where
  "SSHClientDialer_Dial env client =
     (case newSession env client of
        Inl err \<Rightarrow> ([], None, Some err)
      | Inr session \<Rightarrow>
          (case requestSubsystem env session of
             Some err \<Rightarrow> ([Close (Session session)], None, Some err)
           | None \<Rightarrow> ([], Some (SshSessionConn (Some session) None), None)))"

text \<open>The deadline of the context, when it has one, set on the TLS connection before the
  handshake: \<^verbatim>\<open>if deadline, ok := ctx.Deadline(); ok { _ = conn.SetDeadline(deadline) }\<close>.\<close>

definition apply_deadline :: "ctx \<Rightarrow> nat \<Rightarrow> event list" where
  "apply_deadline c n = (case Deadline c of Some d \<Rightarrow> [SetDeadline (Tls n) (Some d)] | None \<Rightarrow> [])"

definition TLSDialer_Dial :: "env \<Rightarrow> ctx \<Rightarrow> string \<Rightarrow> event list \<times> conn option \<times> error option" where
  "TLSDialer_Dial env c target =
     (case netDial env c target of
        Inl err \<Rightarrow> ([DialStart target, DialDone target (Some err)], None, Some err)
      | Inr netConn \<Rightarrow>
          (case tlsClientHandshake env netConn of
             Some err \<Rightarrow>
               (DialStart target # apply_deadline c netConn @
                  [Handshake (Tls netConn), Close (Raw netConn), DialDone target (Some err)],
                None, Some err)
           | None \<Rightarrow>
               (DialStart target # apply_deadline c netConn @
                  [Handshake (Tls netConn), SetDeadline (Tls netConn) None, DialDone target None],
                Some (TlsConn netConn), None)))"

fun Dialer_Dial :: "env \<Rightarrow> ctx \<Rightarrow> dialer \<Rightarrow> event list \<times> conn option \<times> error option" where
  "Dialer_Dial env c (SSHDialer target) = SSHDialer_Dial env target"
| "Dialer_Dial env c (SSHClientDialer client) = SSHClientDialer_Dial env client"
| "Dialer_Dial env c (TLSDialer target) = TLSDialer_Dial env c target"
| "Dialer_Dial env c (TLSConnDialer n) = ([], Some (TlsConn n), None)"
| "Dialer_Dial env c (CallhomeSSHConnDialer conn addr) = ([], conn, None)"
| "Dialer_Dial env c (CallhomeTLSConnDialer n) = ([], Some (TlsConn n), None)"

text \<open>\<^verbatim>\<open>Close(conn io.ReadWriteCloser)\<close> of each dialer; a nil stream is \<open>None\<close>.\<close>

fun Dialer_Close :: "env \<Rightarrow> dialer \<Rightarrow> conn option \<Rightarrow> event list \<times> error option" where
  "Dialer_Close env (SSHDialer target) conn =
     (case conn of Some c \<Rightarrow> conn_Close env c | None \<Rightarrow> ([], None))"
| "Dialer_Close env (SSHClientDialer client) conn =
     (case conn of Some c \<Rightarrow> conn_Close env c | None \<Rightarrow> ([], None))"
| "Dialer_Close env (TLSDialer target) conn =
     (case conn of Some c \<Rightarrow> conn_Close env c | None \<Rightarrow> ([], None))"
| "Dialer_Close env (TLSConnDialer n) conn = ([], None)"
| "Dialer_Close env (CallhomeSSHConnDialer c addr) conn = ([], None)"
| "Dialer_Close env (CallhomeTLSConnDialer n) conn = ([], None)"

text \<open>The resources that a list of events closes, in order.\<close>

fun closed :: "event list \<Rightarrow> resource list" where
  "closed [] = []"
| "closed (Close r # evs) = r # closed evs"
| "closed (e # evs) = closed evs"

section \<open>Transport\<close>

record transportImpl =
  conn :: "conn option"
  target :: string
  dialer :: dialer

text \<open>
  \<^verbatim>\<open>NewTransport\<close>. The two deferred functions run last-in first-out: the stream of a
  failed dial is closed, when there is one, before \<^verbatim>\<open>ConnectDone\<close> is traced.
\<close>

definition NewTransport :: "env \<Rightarrow> ctx \<Rightarrow> dialer \<Rightarrow> event list \<times> (error + transportImpl)" where
  "NewTransport env c d =
     (let tgt = Dialer_Target env d in
      case Dialer_Dial env c d of
        (evs, cn, Some err) \<Rightarrow>
          (ConnectStart tgt # evs @
             (case cn of Some x \<Rightarrow> fst (Dialer_Close env d (Some x)) | None \<Rightarrow> []) @
             [ConnectDone tgt (Some err)],
           Inl err)
      | (evs, cn, None) \<Rightarrow>
          (ConnectStart tgt # evs @ [ConnectDone tgt None],
           Inr \<lparr>conn = cn, target = tgt, dialer = d\<rparr>))"

text \<open>
  \<^verbatim>\<open>transportImpl.Close\<close>:
  \<^verbatim>\<open>defer t.trace.ConnectionClosed(t.target, err)\<close> evaluates the arguments of the deferred
  call when the \<^verbatim>\<open>defer\<close> statement runs, on entry, where the named result \<^verbatim>\<open>err\<close> is
  still nil; the hook is called with that value after \<^verbatim>\<open>dialer.Close\<close> has returned.
\<close>

definition Transport_Close :: "env \<Rightarrow> transportImpl \<Rightarrow> event list \<times> error option" where
  "Transport_Close env t =
     (case conn t of
        Some c \<Rightarrow>
          (case Dialer_Close env (dialer t) (Some c) of
             (evs, err) \<Rightarrow> (evs @ [ConnectionClosed (target t) None], err))
      | None \<Rightarrow> ([ConnectionClosed (target t) None], None))"

section \<open>Session factory\<close>

text \<open>
  Modelled from the spec: the configuration record \<^verbatim>\<open>Config\<close>, whose declaration is not
  among the source files. The spec has an optional-fields record (timeouts, for one); a
  record is a valuation of its field names, and the zero value of a field is \<open>0\<close>.
\<close>

type_synonym Config = "string \<Rightarrow> int"

text \<open>
  Modelled from the spec: the merge \<^verbatim>\<open>mergo.Merge(dst, src)\<close>, a library that is not among
  the source files. The spec has the caller's record merged field by field over the default
  record: a field left at its zero value is overwritten by the default's field, a field
  that is set is kept.
\<close>

definition mergo_Merge :: "Config \<Rightarrow> Config \<Rightarrow> Config" where
  "mergo_Merge dst src = (\<lambda>field. if dst field = 0 then src field else dst field)"

text \<open>
  Configuration records live in memory and are passed by pointer: a heap maps an address
  to the record stored there. A nil pointer is \<open>None\<close>.
\<close>

type_synonym heap = "nat \<Rightarrow> Config"

text \<open>
  Modelled from the spec: the process-wide default record \<^verbatim>\<open>DefaultConfig\<close>, a pointer
  whose declaration is not among the source files: a fixed address of the heap.
\<close>

definition DefaultConfig :: nat where
  "DefaultConfig = 0"

text \<open>
  \<^verbatim>\<open>NewRPCSessionFromDialer\<close>. \<^verbatim>\<open>resolvedConfig := *cfg\<close> copies the caller's record
  into a local one, which is the only record the merge writes to. \<open>NewSession\<close> is the
  session layer's constructor, which is not among the source files: it is a parameter, given
  the transport and the resolved configuration and returning Go's pair of a session and an
  error. The factory returns the events, the heap as it leaves it, and its own pair.
\<close>

definition NewRPCSessionFromDialer ::
  "env \<Rightarrow> (transportImpl \<Rightarrow> Config \<Rightarrow> nat option \<times> error option) \<Rightarrow> ctx \<Rightarrow> dialer \<Rightarrow>
     nat option \<Rightarrow> heap \<Rightarrow> (event list \<times> heap \<times> nat option \<times> error option) go" where
  "NewRPCSessionFromDialer env NewSession c d cfg h =
     (case cfg of
        None \<Rightarrow> Panics NilDereference
      | Some a \<Rightarrow>
          (let resolvedConfig = mergo_Merge (h a) (h DefaultConfig) in
           case NewTransport env c d of
             (evs, Inl err) \<Rightarrow> Returns (MergeDefaults # evs, h, None, Some err)
           | (evs, Inr t) \<Rightarrow>
               (case NewSession t resolvedConfig of
                  (s, Some err) \<Rightarrow>
                    Returns (MergeDefaults # evs @ EstablishSession # fst (Transport_Close env t),
                             h, s, Some err)
                | (s, None) \<Rightarrow> Returns (MergeDefaults # evs @ [EstablishSession], h, s, None))))"

text \<open>
  Modelled from the spec: what \<^verbatim>\<open>NewSession\<close>, absent from the source files, returns when
  it fails. The spec has constructors fail fast, with a nil result and an error: a failed
  session establishment comes with an error and no session.
\<close>

definition fails_without_session :: "nat option \<times> error option \<Rightarrow> bool" where
  "fails_without_session r = (snd r \<noteq> None \<and> fst r = None)"

section \<open>Call-Home listener (manager role)\<close>

text \<open>\<^verbatim>\<open>SSHListener.Accept\<close>: the SSH client over the accepted connection \<open>n\<close> is \<open>Client n\<close>.\<close>

definition SSHListener_Accept :: "env \<Rightarrow> event list \<times> conn option \<times> error option" where
  "SSHListener_Accept env =
     (case listenerAccept env of
        Inl err \<Rightarrow> ([AcceptDone None (Some err)], None, Some (Wrap ''callhome: accept failed'' err))
      | Inr n \<Rightarrow>
          (case sshClientHandshake env n of
             Some err \<Rightarrow>
               ([AcceptDone (Some (Raw n)) None, Close (Raw n)], None,
                Some (Wrap ''callhome: SSH client handshake failed'' err))
           | None \<Rightarrow>
               (case newSession env n of
                  Inl err \<Rightarrow>
                    ([AcceptDone (Some (Raw n)) None, SSHConnected (remoteAddr env (Raw n)),
                      Close (Client n)], None,
                     Some (Wrap ''callhome: failed to create SSH session'' err))
                | Inr session \<Rightarrow>
                    (case requestSubsystem env session of
                       Some err \<Rightarrow>
                         ([AcceptDone (Some (Raw n)) None, SSHConnected (remoteAddr env (Raw n)),
                           Close (Session session), Close (Client n)], None,
                          Some (Wrap ''callhome: failed to request netconf subsystem'' err))
                     | None \<Rightarrow>
                         ([AcceptDone (Some (Raw n)) None, SSHConnected (remoteAddr env (Raw n)),
                           SubsystemReady (remoteAddr env (Raw n))],
                          Some (MgrCallhomeConn n session None), None)))))"

text \<open>\<^verbatim>\<open>TLSListener.Accept\<close>: the manager is the TLS client on the accepted connection.\<close>

definition TLSListener_Accept :: "env \<Rightarrow> ctx \<Rightarrow> event list \<times> conn option \<times> error option" where
  "TLSListener_Accept env c =
     (case listenerAccept env of
        Inl err \<Rightarrow> ([AcceptDone None (Some err)], None, Some (Wrap ''callhome: accept failed'' err))
      | Inr n \<Rightarrow>
          (case tlsClientHandshake env n of
             Some err \<Rightarrow>
               (AcceptDone (Some (Raw n)) None # apply_deadline c n @
                  [Handshake (Tls n), Close (Raw n)],
                None, Some (Wrap ''callhome: TLS handshake failed'' err))
           | None \<Rightarrow>
               (AcceptDone (Some (Raw n)) None # apply_deadline c n @
                  [Handshake (Tls n), SetDeadline (Tls n) None, TLSConnected (remoteAddr env (Raw n))],
                Some (TlsConn n), None)))"

section \<open>Call-Home server dialer over TLS (device role)\<close>

text \<open>\<^verbatim>\<open>TLSDialer.Dial\<close> of the Call-Home server: the device is the TLS server on the
  connection it dialled. The deferred \<^verbatim>\<open>DialDone\<close> reads \<^verbatim>\<open>err\<close>, the unwrapped error.\<close>

definition dev_TLSDialer_Dial :: "env \<Rightarrow> ctx \<Rightarrow> string \<Rightarrow> event list \<times> conn option \<times> error option" where
  "dev_TLSDialer_Dial env c tgt =
     (case netDial env c tgt of
        Inl err \<Rightarrow>
          ([DialStart tgt, DialDone tgt (Some err)], None,
           Some (Wrap ''callhome: failed to connect to client'' err))
      | Inr n \<Rightarrow>
          (case tlsServerHandshake env n of
             Some err \<Rightarrow>
               (DialStart tgt # apply_deadline c n @
                  [Handshake (Tls n), Close (Raw n), DialDone tgt (Some err)],
                None, Some (Wrap ''callhome: TLS handshake failed'' err))
           | None \<Rightarrow>
               (DialStart tgt # apply_deadline c n @
                  [Handshake (Tls n), SetDeadline (Tls n) None, TLSConnected tgt, DialDone tgt None],
                Some (TlsConn n), None)))"

section \<open>A concrete environment\<close>

text \<open>An environment in which every library call succeeds, to run the definitions on:
  connections are numbered 1, sessions 2, and no channel-open request arrives.\<close>

definition ok_env :: env where
  "ok_env =
     \<lparr>netDial = (\<lambda>c t. Inr 1), listenerAccept = Inr 1, sshDial = (\<lambda>t. Inr 1),
      sshClientHandshake = (\<lambda>n. None), sshServerHandshake = (\<lambda>n. Inr []),
      newSession = (\<lambda>n. Inr 2), requestSubsystem = (\<lambda>s. None),
      tlsClientHandshake = (\<lambda>n. None), tlsServerHandshake = (\<lambda>n. None),
      closeErr = (\<lambda>r. None), remoteAddr = (\<lambda>r. ''192.0.2.1:830'')\<rparr>"

section \<open>Properties of the request goroutine and the channel loop\<close>

lemma reply_all_false_map: "reply_all_false rs = map (\<lambda>r. Reply r False) rs"
  by (induction rs) simp_all

text \<open>A "subsystem" request with fewer than four payload bytes stops the goroutine with a
  panic, whatever follows it.\<close>

lemma serve_requests_short_payload:
  "Type req = ''subsystem'' \<Longrightarrow> length (Payload req) < 4 \<Longrightarrow>
   serve_requests (req # rs) = ([], Panics (SliceBoundsOutOfRange 4 (length (Payload req))))"
  by (simp add: slice_from_def)

text \<open>On request streams whose "subsystem" payloads all have their four length bytes, the
  goroutine refuses every request when none asks for "netconf", and otherwise grants the
  first that does and refuses all others.\<close>

lemma serve_requests_refused:
  "list_all payload_sliceable reqs \<Longrightarrow> list_all (\<lambda>r. \<not> names_netconf r) reqs \<Longrightarrow>
   serve_requests reqs = (map (\<lambda>r. Reply r False) reqs, Returns False)"
  by (induction reqs) (auto simp: slice_from_def names_netconf_def payload_sliceable_def)

lemma serve_requests_granted:
  "list_all payload_sliceable pre \<Longrightarrow> list_all (\<lambda>r. \<not> names_netconf r) pre \<Longrightarrow>
   names_netconf req \<Longrightarrow>
   serve_requests (pre @ req # post) =
     (map (\<lambda>r. Reply r False) pre @ Reply req True # map (\<lambda>r. Reply r False) post, Returns True)"
  by (induction pre)
    (auto simp: slice_from_def names_netconf_def payload_sliceable_def reply_all_false_map)

lemma handleChannels_skip:
  "\<forall>nc \<in> set pre. ChannelType nc \<noteq> ''session'' \<Longrightarrow>
   handleChannels tgt n (pre @ rest) =
     (case handleChannels tgt n rest of
        (evs, reps, out) \<Rightarrow> (map reject_unknown pre @ evs, reps, out))"
  by (induction pre) (auto split: prod.splits simp: reject_unknown_def)

lemma handleChannels_session_granted:
  "ChannelType nc = ''session'' \<Longrightarrow> Accept nc = Inr (pre @ req # post) \<Longrightarrow>
   list_all payload_sliceable pre \<Longrightarrow> list_all (\<lambda>r. \<not> names_netconf r) pre \<Longrightarrow>
   names_netconf req \<Longrightarrow>
   handleChannels tgt n (nc # later) =
     ([SubsystemReady tgt],
      map (\<lambda>r. Reply r False) pre @ Reply req True # map (\<lambda>r. Reply r False) post,
      Returns (Inr (DevCallhomeConn n (ChannelId nc))))"
  by (simp add: serve_requests_granted)

lemma handleChannels_session_refused:
  "ChannelType nc = ''session'' \<Longrightarrow> Accept nc = Inr reqs \<Longrightarrow>
   list_all payload_sliceable reqs \<Longrightarrow> list_all (\<lambda>r. \<not> names_netconf r) reqs \<Longrightarrow>
   handleChannels tgt n (nc # later) =
     ([Close (Chan (ChannelId nc))], map (\<lambda>r. Reply r False) reqs,
      Returns (Inl (Err ''callhome: netconf subsystem not requested'')))"
  by (simp add: serve_requests_refused)

lemma dev_SSHDialer_Dial_refused:
  assumes "netDial env c tgt = Inr n" and "sshServerHandshake env n = Inr (nc # later)"
    and "ChannelType nc = ''session''" and "Accept nc = Inr reqs"
    and "list_all payload_sliceable reqs" and "list_all (\<lambda>r. \<not> names_netconf r) reqs"
  shows "dev_SSHDialer_Dial env c tgt =
     ([DialStart tgt, SSHConnected tgt, Close (Chan (ChannelId nc)), DialDone tgt None],
      map (\<lambda>r. Reply r False) reqs,
      Returns (Inl (Err ''callhome: netconf subsystem not requested'')))"
  using assms(1,2) handleChannels_session_refused [OF assms(3-6), of tgt n later]
  by (simp add: dev_SSHDialer_Dial_def del: handleChannels.simps)

text \<open>
  Claim C1. For an accepted session channel whose request stream ends without a "subsystem"
  request naming "netconf", Dial is to reply failure to the requests, close the channel and
  return an error; after a "netconf" request it is to reply success and refuse the rest.
  The code does so on streams whose "subsystem" payloads are at least four bytes long
  (\<open>dev_SSHDialer_Dial_refused\<close>, \<open>handleChannels_session_granted\<close>). On a session channel
  whose only request is a "subsystem" request with an empty payload, a stream without a
  "netconf" request, Dial makes no reply, leaves the channel open and returns nothing: the
  request goroutine panics on \<^verbatim>\<open>req.Payload[4:]\<close>.
\<close>

theorem C1_dial_panics_on_short_subsystem_request:
  "dev_SSHDialer_Dial
     (ok_env\<lparr>sshServerHandshake := (\<lambda>n. Inr [\<lparr>ChannelId = 0, ChannelType = ''session'',
        Accept = Inr [\<lparr>Type = ''subsystem'', WantReply = True, Payload = []\<rparr>]\<rparr>])\<rparr>)
     \<lparr>Deadline = None, Done = False\<rparr> ''mgr:4334''
   = ([DialStart ''mgr:4334'', SSHConnected ''mgr:4334''], [], Panics (SliceBoundsOutOfRange 4 0))"
  by (simp add: dev_SSHDialer_Dial_def ok_env_def slice_from_def)

text \<open>
  Claim C2. Every channel-open request whose type is not "session" is rejected with
  "unknown channel type" and the loop goes on with the channels that follow: the outcome is
  that of the remaining channels. So, after any number of such channels, a session channel
  that asks for "netconf" still yields the connection; and when only such channels arrive
  before the channel stream closes, Dial fails with "no session channel received".
\<close>

theorem C2_non_session_channels_rejected:
  assumes "\<forall>nc \<in> set pre. ChannelType nc \<noteq> ''session''"
  shows "handleChannels tgt n (pre @ rest) =
           (case handleChannels tgt n rest of
              (evs, reps, out) \<Rightarrow> (map reject_unknown pre @ evs, reps, out))
       \<and> (netDial env c tgt = Inr n \<and> sshServerHandshake env n = Inr (pre @ nc # later) \<and>
            ChannelType nc = ''session'' \<and> Accept nc = Inr (req # post) \<and> names_netconf req \<longrightarrow>
           dev_SSHDialer_Dial env c tgt =
             (DialStart tgt # SSHConnected tgt # map reject_unknown pre @
                [SubsystemReady tgt, DialDone tgt None],
              Reply req True # map (\<lambda>r. Reply r False) post,
              Returns (Inr (DevCallhomeConn n (ChannelId nc)))))
       \<and> (netDial env c tgt = Inr n \<and> sshServerHandshake env n = Inr pre \<longrightarrow>
           dev_SSHDialer_Dial env c tgt =
             (DialStart tgt # SSHConnected tgt # map reject_unknown pre @ [DialDone tgt None], [],
              Returns (Inl (Err ''callhome: no session channel received''))))"
proof (intro conjI impI)
  show "handleChannels tgt n (pre @ rest) =
      (case handleChannels tgt n rest of (evs, reps, out) \<Rightarrow> (map reject_unknown pre @ evs, reps, out))"
    using assms by (rule handleChannels_skip)
next
  assume h: "netDial env c tgt = Inr n \<and> sshServerHandshake env n = Inr (pre @ nc # later) \<and>
            ChannelType nc = ''session'' \<and> Accept nc = Inr (req # post) \<and> names_netconf req"
  then have g: "handleChannels tgt n (nc # later) =
     ([SubsystemReady tgt], Reply req True # map (\<lambda>r. Reply r False) post,
      Returns (Inr (DevCallhomeConn n (ChannelId nc))))"
    using handleChannels_session_granted [of nc "[]" req post tgt n later] by simp
  have hc: "handleChannels tgt n (pre @ nc # later) =
     (map reject_unknown pre @ [SubsystemReady tgt], Reply req True # map (\<lambda>r. Reply r False) post,
      Returns (Inr (DevCallhomeConn n (ChannelId nc))))"
    by (simp only: handleChannels_skip [OF assms] g) simp
  show "dev_SSHDialer_Dial env c tgt =
          (DialStart tgt # SSHConnected tgt # map reject_unknown pre @
             [SubsystemReady tgt, DialDone tgt None],
           Reply req True # map (\<lambda>r. Reply r False) post,
           Returns (Inr (DevCallhomeConn n (ChannelId nc))))"
    using h by (simp add: dev_SSHDialer_Dial_def hc del: handleChannels.simps)
next
  assume h: "netDial env c tgt = Inr n \<and> sshServerHandshake env n = Inr pre"
  have "handleChannels tgt n (pre @ []) =
      (map reject_unknown pre, [], Returns (Inl (Err ''callhome: no session channel received'')))"
    by (simp only: handleChannels_skip [OF assms]) simp
  then show "dev_SSHDialer_Dial env c tgt =
          (DialStart tgt # SSHConnected tgt # map reject_unknown pre @ [DialDone tgt None], [],
           Returns (Inl (Err ''callhome: no session channel received'')))"
    using h by (simp add: dev_SSHDialer_Dial_def)
qed

theorem C2_non_session_channels_rejected_witness:
  "dev_SSHDialer_Dial
     (ok_env\<lparr>sshServerHandshake := (\<lambda>n. Inr
        [\<lparr>ChannelId = 0, ChannelType = ''direct-tcpip'', Accept = Inr []\<rparr>,
         \<lparr>ChannelId = 1, ChannelType = ''session'',
          Accept = Inr [\<lparr>Type = ''subsystem'', WantReply = True,
                         Payload = [CHR 0x00, CHR 0x00, CHR 0x00, CHR 0x07] @ ''netconf''\<rparr>,
                        \<lparr>Type = ''exec'', WantReply = True, Payload = ''ls''\<rparr>]\<rparr>])\<rparr>)
     \<lparr>Deadline = None, Done = False\<rparr> ''mgr:4334''
   = ([DialStart ''mgr:4334'', SSHConnected ''mgr:4334'', Reject 0 UnknownChannelType ''unknown channel type'',
       SubsystemReady ''mgr:4334'', DialDone ''mgr:4334'' None],
      [Reply \<lparr>Type = ''subsystem'', WantReply = True,
               Payload = [CHR 0x00, CHR 0x00, CHR 0x00, CHR 0x07] @ ''netconf''\<rparr> True,
       Reply \<lparr>Type = ''exec'', WantReply = True, Payload = ''ls''\<rparr> False],
      Returns (Inr (DevCallhomeConn 1 1)))
   \<and> dev_SSHDialer_Dial
     (ok_env\<lparr>sshServerHandshake := (\<lambda>n. Inr
        [\<lparr>ChannelId = 0, ChannelType = ''direct-tcpip'', Accept = Inr []\<rparr>])\<rparr>)
     \<lparr>Deadline = None, Done = False\<rparr> ''mgr:4334''
   = ([DialStart ''mgr:4334'', SSHConnected ''mgr:4334'', Reject 0 UnknownChannelType ''unknown channel type'',
       DialDone ''mgr:4334'' None], [],
      Returns (Inl (Err ''callhome: no session channel received'')))"
proof -
  let ?x = "\<lparr>ChannelId = 0, ChannelType = ''direct-tcpip'', Accept = Inr []\<rparr>"
  let ?req = "\<lparr>Type = ''subsystem'', WantReply = True,
                Payload = [CHR 0x00, CHR 0x00, CHR 0x00, CHR 0x07] @ ''netconf''\<rparr>"
  let ?post = "[\<lparr>Type = ''exec'', WantReply = True, Payload = ''ls''\<rparr>]"
  let ?nc = "\<lparr>ChannelId = 1, ChannelType = ''session'', Accept = Inr (?req # ?post)\<rparr>"
  let ?c = "\<lparr>Deadline = None, Done = False\<rparr>"
  have h: "\<forall>nc \<in> set [?x]. ChannelType nc \<noteq> ''session''"
    by simp
  show ?thesis
    using C2_non_session_channels_rejected [OF h,
        where env = "ok_env\<lparr>sshServerHandshake := (\<lambda>n. Inr [?x, ?nc])\<rparr>" and c = ?c
          and tgt = "''mgr:4334''" and n = 1 and nc = ?nc and later = "[]" and req = ?req
          and post = ?post]
      C2_non_session_channels_rejected [OF h,
        where env = "ok_env\<lparr>sshServerHandshake := (\<lambda>n. Inr [?x])\<rparr>" and c = ?c
          and tgt = "''mgr:4334''" and n = 1]
    by (simp add: ok_env_def names_netconf_def reject_unknown_def)
qed

text \<open>
  Claim C9. Taking the subsystem name from the payload of a channel request, the bytes from
  offset 4 on, is to be safe for every payload. In the code a request of type "subsystem"
  whose payload has three bytes makes \<^verbatim>\<open>req.Payload[4:]\<close> panic; there is no length check
  (requests of another type are not sliced).
\<close>

theorem C9_payload_slice_out_of_range:
  "serve_requests [\<lparr>Type = ''subsystem'', WantReply = True, Payload = ''abc''\<rparr>] =
     ([], Panics (SliceBoundsOutOfRange 4 3))"
  by (simp add: slice_from_def)

section \<open>Properties of the dialers\<close>

lemma close_keep_first_events:
  "fst (close_keep_first env x st) = fst st @ (case x of None \<Rightarrow> [] | Some r \<Rightarrow> [Close r])"
  by (cases st) (simp add: close_keep_first_def split: option.splits)

lemma closed_append: "closed (xs @ ys) = closed xs @ closed ys"
  by (induction xs rule: closed.induct) simp_all

lemma closed_apply_deadline: "closed (apply_deadline c n) = []"
  by (simp add: apply_deadline_def split: option.splits)

lemma conn_Close_only_closes: "set (fst (conn_Close env x)) \<subseteq> range Close"
  by (cases x) (auto simp: close_keep_first_events Let_def split: option.splits)

lemma Dialer_Close_only_closes: "set (fst (Dialer_Close env d cn)) \<subseteq> range Close"
  using conn_Close_only_closes by (cases d) (auto split: option.splits)

lemma Dialer_Close_nil: "Dialer_Close env d None = ([], None)"
  by (cases d) simp_all

text \<open>
  Claim C3. Close of a dialer that wraps a client or connection of the caller's never closes
  it: the client's \<open>TLSConnDialer\<close> and the two Call-Home dialers call nothing at all and return
  nil, for any stream passed; \<open>SSHClientDialer\<close>, given a stream of its own, closes the pipe
  and the session it opened and not the client. Close of a dialer that dialled afresh closes
  what the dial created: \<open>SSHDialer\<close> the pipe, the session and the client, each whatever the
  earlier closes returned; \<open>TLSDialer\<close> the TLS connection.
\<close>

theorem C3_close_respects_ownership:
  "Dialer_Close env (TLSConnDialer n) cn = ([], None)
   \<and> Dialer_Close env (CallhomeSSHConnDialer stored addr) cn = ([], None)
   \<and> Dialer_Close env (CallhomeTLSConnDialer n) cn = ([], None)
   \<and> closed (fst (Dialer_Close env (SSHClientDialer client) (Some (SshSessionConn session writer)))) =
        (case writer of None \<Rightarrow> [] | Some p \<Rightarrow> [Pipe p]) @
        (case session of None \<Rightarrow> [] | Some s \<Rightarrow> [Session s])
   \<and> Client client \<notin>
        set (closed (fst (Dialer_Close env (SSHClientDialer client) (Some (SshSessionConn session writer)))))
   \<and> closed (fst (Dialer_Close env (SSHDialer tgt) (Some (SshConn (Some cl) (Some s) writer)))) =
        (case writer of None \<Rightarrow> [] | Some p \<Rightarrow> [Pipe p]) @ [Session s, Client cl]
   \<and> Dialer_Close env (TLSDialer tgt) (Some (TlsConn n)) = ([Close (Tls n)], closeErr env (Tls n))"
  by (simp add: close_keep_first_events closed_append split: option.splits)

theorem C3_close_respects_ownership_witness:
  "Dialer_Close ok_env (CallhomeSSHConnDialer (Some (MgrCallhomeConn 1 2 None)) ''192.0.2.1:4334'')
     (Some (MgrCallhomeConn 1 2 None)) = ([], None)
   \<and> closed (fst (Dialer_Close ok_env (SSHClientDialer 1) (Some (SshSessionConn (Some 2) (Some 3))))) =
        [Pipe 3, Session 2]
   \<and> closed (fst (Dialer_Close (ok_env\<lparr>closeErr := (\<lambda>r. Some (Err ''closed''))\<rparr>)
        (SSHDialer ''host:830'') (Some (SshConn (Some 1) (Some 2) None)))) = [Session 2, Client 1]"
  using C3_close_respects_ownership [where env = ok_env and stored = "Some (MgrCallhomeConn 1 2 None)"
      and cn = "Some (MgrCallhomeConn 1 2 None)" and addr = "''192.0.2.1:4334''" and client = 1
      and session = "Some 2" and writer = "Some 3"]
    C3_close_respects_ownership [where env = "ok_env\<lparr>closeErr := (\<lambda>r. Some (Err ''closed''))\<rparr>"
      and tgt = "''host:830''" and cl = 1 and s = 2 and writer = None]
  by simp

text \<open>
  Claim C10. Dial of a dialer that wraps an established connection (the client's
  \<open>TLSConnDialer\<close>, the Call-Home \<open>SSHConnDialer\<close> and \<open>TLSConnDialer\<close>) returns the stored
  connection and a nil error and calls nothing, in every environment and for every context;
  a cancelled or expired context gives the same result.
\<close>

theorem C10_conn_dialers_return_stored_connection:
  "Dialer_Dial env c (TLSConnDialer n) = ([], Some (TlsConn n), None)
   \<and> Dialer_Dial env c (CallhomeSSHConnDialer stored addr) = ([], stored, None)
   \<and> Dialer_Dial env c (CallhomeTLSConnDialer n) = ([], Some (TlsConn n), None)
   \<and> Dialer_Dial env (c\<lparr>Done := True\<rparr>) (TLSConnDialer n) = Dialer_Dial env c (TLSConnDialer n)
   \<and> Dialer_Dial env (c\<lparr>Done := True\<rparr>) (CallhomeSSHConnDialer stored addr) =
       Dialer_Dial env c (CallhomeSSHConnDialer stored addr)
   \<and> Dialer_Dial env (c\<lparr>Done := True\<rparr>) (CallhomeTLSConnDialer n) =
       Dialer_Dial env c (CallhomeTLSConnDialer n)"
  by simp

theorem C10_conn_dialers_return_stored_connection_witness:
  "Dialer_Dial ok_env \<lparr>Deadline = Some 0, Done = True\<rparr>
     (CallhomeSSHConnDialer (Some (MgrCallhomeConn 1 2 None)) ''192.0.2.1:4334'') =
     ([], Some (MgrCallhomeConn 1 2 None), None)
   \<and> Dialer_Dial ok_env \<lparr>Deadline = Some 0, Done = True\<rparr> (TLSConnDialer 1) =
     ([], Some (TlsConn 1), None)"
  using C10_conn_dialers_return_stored_connection [where env = ok_env
      and c = "\<lparr>Deadline = Some 0, Done = True\<rparr>" and n = 1
      and stored = "Some (MgrCallhomeConn 1 2 None)" and addr = "''192.0.2.1:4334''"]
  by simp

text \<open>
  Claim C4. In a fresh SSH dial (\<open>SSHDialer_Dial\<close>) and in the Call-Home listener's Accept
  (\<open>SSHListener_Accept\<close>), a failure to create the session closes the SSH client and returns
  the error; a failure of the "netconf" subsystem request closes the session and then the
  client and returns the error. On every failing path no stream is returned and what was
  opened up to the failure is closed, last opened first.
\<close>

theorem C4_failed_ssh_setup_closes_in_reverse:
  "(sshDial env tgt = Inr cl \<and> newSession env cl = Inl e \<longrightarrow>
      SSHDialer_Dial env tgt = ([DialStart tgt, Close (Client cl), DialDone tgt (Some e)], None, Some e))
   \<and> (sshDial env tgt = Inr cl \<and> newSession env cl = Inr s \<and> requestSubsystem env s = Some e \<longrightarrow>
      SSHDialer_Dial env tgt =
        ([DialStart tgt, Close (Session s), Close (Client cl), DialDone tgt (Some e)], None, Some e))
   \<and> (listenerAccept env = Inr n \<and> sshClientHandshake env n = None \<and> newSession env n = Inl e \<longrightarrow>
      SSHListener_Accept env =
        ([AcceptDone (Some (Raw n)) None, SSHConnected (remoteAddr env (Raw n)), Close (Client n)], None,
         Some (Wrap ''callhome: failed to create SSH session'' e)))
   \<and> (listenerAccept env = Inr n \<and> sshClientHandshake env n = None \<and> newSession env n = Inr s \<and>
       requestSubsystem env s = Some e \<longrightarrow>
      SSHListener_Accept env =
        ([AcceptDone (Some (Raw n)) None, SSHConnected (remoteAddr env (Raw n)),
          Close (Session s), Close (Client n)], None,
         Some (Wrap ''callhome: failed to request netconf subsystem'' e)))
   \<and> (snd (snd (SSHDialer_Dial env tgt)) \<noteq> None \<longrightarrow>
        fst (snd (SSHDialer_Dial env tgt)) = None \<and>
        closed (fst (SSHDialer_Dial env tgt)) =
          (case sshDial env tgt of
             Inl x \<Rightarrow> []
           | Inr cl' \<Rightarrow>
               (case newSession env cl' of Inl x \<Rightarrow> [Client cl'] | Inr s' \<Rightarrow> [Session s', Client cl'])))
   \<and> (snd (snd (SSHListener_Accept env)) \<noteq> None \<longrightarrow>
        fst (snd (SSHListener_Accept env)) = None \<and>
        closed (fst (SSHListener_Accept env)) =
          (case listenerAccept env of
             Inl x \<Rightarrow> []
           | Inr n' \<Rightarrow>
               (case sshClientHandshake env n' of
                  Some x \<Rightarrow> [Raw n']
                | None \<Rightarrow>
                    (case newSession env n' of
                       Inl x \<Rightarrow> [Client n']
                     | Inr s' \<Rightarrow> [Session s', Client n']))))"
  by (auto simp: SSHDialer_Dial_def SSHListener_Accept_def split: sum.splits option.splits)

theorem C4_failed_ssh_setup_closes_in_reverse_witness:
  "SSHDialer_Dial (ok_env\<lparr>newSession := (\<lambda>n. Inl (Err ''open failed''))\<rparr>) ''host:830'' =
     ([DialStart ''host:830'', Close (Client 1), DialDone ''host:830'' (Some (Err ''open failed''))],
      None, Some (Err ''open failed''))
   \<and> SSHDialer_Dial (ok_env\<lparr>requestSubsystem := (\<lambda>n. Some (Err ''refused''))\<rparr>) ''host:830'' =
     ([DialStart ''host:830'', Close (Session 2), Close (Client 1),
       DialDone ''host:830'' (Some (Err ''refused''))], None, Some (Err ''refused''))
   \<and> closed (fst (SSHListener_Accept (ok_env\<lparr>newSession := (\<lambda>n. Inl (Err ''open failed''))\<rparr>))) =
       [Client 1]
   \<and> closed (fst (SSHListener_Accept (ok_env\<lparr>requestSubsystem := (\<lambda>n. Some (Err ''refused''))\<rparr>))) =
       [Session 2, Client 1]
   \<and> snd (SSHListener_Accept (ok_env\<lparr>requestSubsystem := (\<lambda>n. Some (Err ''refused''))\<rparr>)) =
       (None, Some (Wrap ''callhome: failed to request netconf subsystem'' (Err ''refused'')))"
  using C4_failed_ssh_setup_closes_in_reverse [where env = "ok_env\<lparr>newSession := (\<lambda>n. Inl (Err ''open failed''))\<rparr>"
      and tgt = "''host:830''" and cl = 1 and n = 1 and e = "Err ''open failed''"]
    C4_failed_ssh_setup_closes_in_reverse [where env = "ok_env\<lparr>requestSubsystem := (\<lambda>n. Some (Err ''refused''))\<rparr>"
      and tgt = "''host:830''" and cl = 1 and n = 1 and s = 2 and e = "Err ''refused''"]
  by (simp add: ok_env_def)

text \<open>
  Claim C6. On each TLS handshake path (the client's \<open>TLSDialer_Dial\<close>, the Call-Home
  listener's \<open>TLSListener_Accept\<close>, the Call-Home device's \<open>dev_TLSDialer_Dial\<close>): when the
  context has a deadline, it is set on the connection before the handshake, whether the
  handshake then succeeds or fails, and, the handshake having succeeded, reset to the zero
  time; when the handshake fails, the raw TCP connection, and nothing else, is closed and the
  error is returned with no connection, the deadline not being reset. The runs with a
  failing handshake are given event by event, with a deadline and without one.
\<close>

theorem C6_tls_handshake_deadline:
  "(netDial env c tgt = Inr n \<and> Deadline c = Some dl \<and> tlsClientHandshake env n = None \<longrightarrow>
      TLSDialer_Dial env c tgt =
        ([DialStart tgt, SetDeadline (Tls n) (Some dl), Handshake (Tls n), SetDeadline (Tls n) None,
          DialDone tgt None], Some (TlsConn n), None))
   \<and> (netDial env c tgt = Inr n \<and> tlsClientHandshake env n = Some e \<longrightarrow>
      closed (fst (TLSDialer_Dial env c tgt)) = [Raw n] \<and> snd (TLSDialer_Dial env c tgt) = (None, Some e))
   \<and> (listenerAccept env = Inr n \<and> Deadline c = Some dl \<and> tlsClientHandshake env n = None \<longrightarrow>
      TLSListener_Accept env c =
        ([AcceptDone (Some (Raw n)) None, SetDeadline (Tls n) (Some dl), Handshake (Tls n),
          SetDeadline (Tls n) None, TLSConnected (remoteAddr env (Raw n))], Some (TlsConn n), None))
   \<and> (listenerAccept env = Inr n \<and> tlsClientHandshake env n = Some e \<longrightarrow>
      closed (fst (TLSListener_Accept env c)) = [Raw n] \<and>
      snd (TLSListener_Accept env c) = (None, Some (Wrap ''callhome: TLS handshake failed'' e)))
   \<and> (netDial env c tgt = Inr n \<and> Deadline c = Some dl \<and> tlsServerHandshake env n = None \<longrightarrow>
      dev_TLSDialer_Dial env c tgt =
        ([DialStart tgt, SetDeadline (Tls n) (Some dl), Handshake (Tls n), SetDeadline (Tls n) None,
          TLSConnected tgt, DialDone tgt None], Some (TlsConn n), None))
   \<and> (netDial env c tgt = Inr n \<and> tlsServerHandshake env n = Some e \<longrightarrow>
      closed (fst (dev_TLSDialer_Dial env c tgt)) = [Raw n] \<and>
      snd (dev_TLSDialer_Dial env c tgt) = (None, Some (Wrap ''callhome: TLS handshake failed'' e)))
   \<and> (netDial env c tgt = Inr n \<and> Deadline c = Some dl \<and> tlsClientHandshake env n = Some e \<longrightarrow>
      TLSDialer_Dial env c tgt =
        ([DialStart tgt, SetDeadline (Tls n) (Some dl), Handshake (Tls n), Close (Raw n),
          DialDone tgt (Some e)], None, Some e))
   \<and> (netDial env c tgt = Inr n \<and> Deadline c = None \<and> tlsClientHandshake env n = Some e \<longrightarrow>
      TLSDialer_Dial env c tgt =
        ([DialStart tgt, Handshake (Tls n), Close (Raw n), DialDone tgt (Some e)], None, Some e))
   \<and> (listenerAccept env = Inr n \<and> Deadline c = Some dl \<and> tlsClientHandshake env n = Some e \<longrightarrow>
      TLSListener_Accept env c =
        ([AcceptDone (Some (Raw n)) None, SetDeadline (Tls n) (Some dl), Handshake (Tls n),
          Close (Raw n)], None, Some (Wrap ''callhome: TLS handshake failed'' e)))
   \<and> (listenerAccept env = Inr n \<and> Deadline c = None \<and> tlsClientHandshake env n = Some e \<longrightarrow>
      TLSListener_Accept env c =
        ([AcceptDone (Some (Raw n)) None, Handshake (Tls n), Close (Raw n)], None,
         Some (Wrap ''callhome: TLS handshake failed'' e)))
   \<and> (netDial env c tgt = Inr n \<and> Deadline c = Some dl \<and> tlsServerHandshake env n = Some e \<longrightarrow>
      dev_TLSDialer_Dial env c tgt =
        ([DialStart tgt, SetDeadline (Tls n) (Some dl), Handshake (Tls n), Close (Raw n),
          DialDone tgt (Some e)], None, Some (Wrap ''callhome: TLS handshake failed'' e)))
   \<and> (netDial env c tgt = Inr n \<and> Deadline c = None \<and> tlsServerHandshake env n = Some e \<longrightarrow>
      dev_TLSDialer_Dial env c tgt =
        ([DialStart tgt, Handshake (Tls n), Close (Raw n), DialDone tgt (Some e)], None,
         Some (Wrap ''callhome: TLS handshake failed'' e)))"
  by (simp add: TLSDialer_Dial_def TLSListener_Accept_def dev_TLSDialer_Dial_def apply_deadline_def
      closed_append closed_apply_deadline split: option.splits)

theorem C6_tls_handshake_deadline_witness:
  "TLSDialer_Dial ok_env \<lparr>Deadline = Some 30, Done = False\<rparr> ''host:6513'' =
     ([DialStart ''host:6513'', SetDeadline (Tls 1) (Some 30), Handshake (Tls 1),
       SetDeadline (Tls 1) None, DialDone ''host:6513'' None], Some (TlsConn 1), None)
   \<and> TLSListener_Accept ok_env \<lparr>Deadline = Some 30, Done = False\<rparr> =
     ([AcceptDone (Some (Raw 1)) None, SetDeadline (Tls 1) (Some 30), Handshake (Tls 1),
       SetDeadline (Tls 1) None, TLSConnected ''192.0.2.1:830''], Some (TlsConn 1), None)
   \<and> dev_TLSDialer_Dial ok_env \<lparr>Deadline = Some 30, Done = False\<rparr> ''mgr:4335'' =
     ([DialStart ''mgr:4335'', SetDeadline (Tls 1) (Some 30), Handshake (Tls 1),
       SetDeadline (Tls 1) None, TLSConnected ''mgr:4335'', DialDone ''mgr:4335'' None],
      Some (TlsConn 1), None)
   \<and> closed (fst (TLSDialer_Dial
        (ok_env\<lparr>tlsClientHandshake := (\<lambda>n. Some (Err ''bad certificate''))\<rparr>)
        \<lparr>Deadline = Some 30, Done = False\<rparr> ''host:6513'')) = [Raw 1]
   \<and> snd (TLSListener_Accept
        (ok_env\<lparr>tlsClientHandshake := (\<lambda>n. Some (Err ''bad certificate''))\<rparr>)
        \<lparr>Deadline = None, Done = False\<rparr>) =
       (None, Some (Wrap ''callhome: TLS handshake failed'' (Err ''bad certificate'')))
   \<and> closed (fst (dev_TLSDialer_Dial
        (ok_env\<lparr>tlsServerHandshake := (\<lambda>n. Some (Err ''timeout''))\<rparr>)
        \<lparr>Deadline = Some 30, Done = False\<rparr> ''mgr:4335'')) = [Raw 1]
   \<and> TLSDialer_Dial (ok_env\<lparr>tlsClientHandshake := (\<lambda>n. Some (Err ''bad certificate''))\<rparr>)
        \<lparr>Deadline = Some 30, Done = False\<rparr> ''host:6513'' =
       ([DialStart ''host:6513'', SetDeadline (Tls 1) (Some 30), Handshake (Tls 1), Close (Raw 1),
         DialDone ''host:6513'' (Some (Err ''bad certificate''))], None,
        Some (Err ''bad certificate''))
   \<and> TLSListener_Accept (ok_env\<lparr>tlsClientHandshake := (\<lambda>n. Some (Err ''bad certificate''))\<rparr>)
        \<lparr>Deadline = None, Done = False\<rparr> =
       ([AcceptDone (Some (Raw 1)) None, Handshake (Tls 1), Close (Raw 1)], None,
        Some (Wrap ''callhome: TLS handshake failed'' (Err ''bad certificate'')))
   \<and> TLSListener_Accept (ok_env\<lparr>tlsClientHandshake := (\<lambda>n. Some (Err ''bad certificate''))\<rparr>)
        \<lparr>Deadline = Some 30, Done = False\<rparr> =
       ([AcceptDone (Some (Raw 1)) None, SetDeadline (Tls 1) (Some 30), Handshake (Tls 1),
         Close (Raw 1)], None,
        Some (Wrap ''callhome: TLS handshake failed'' (Err ''bad certificate'')))
   \<and> dev_TLSDialer_Dial (ok_env\<lparr>tlsServerHandshake := (\<lambda>n. Some (Err ''timeout''))\<rparr>)
        \<lparr>Deadline = Some 30, Done = False\<rparr> ''mgr:4335'' =
       ([DialStart ''mgr:4335'', SetDeadline (Tls 1) (Some 30), Handshake (Tls 1), Close (Raw 1),
         DialDone ''mgr:4335'' (Some (Err ''timeout''))], None,
        Some (Wrap ''callhome: TLS handshake failed'' (Err ''timeout'')))"
  using C6_tls_handshake_deadline [where env = ok_env and c = "\<lparr>Deadline = Some 30, Done = False\<rparr>"
      and tgt = "''host:6513''" and n = 1 and dl = 30]
    C6_tls_handshake_deadline [where env = ok_env and c = "\<lparr>Deadline = Some 30, Done = False\<rparr>"
      and tgt = "''mgr:4335''" and n = 1 and dl = 30]
    C6_tls_handshake_deadline [where env = "ok_env\<lparr>tlsClientHandshake := (\<lambda>n. Some (Err ''bad certificate''))\<rparr>"
      and c = "\<lparr>Deadline = Some 30, Done = False\<rparr>" and tgt = "''host:6513''" and n = 1
      and dl = 30 and e = "Err ''bad certificate''"]
    C6_tls_handshake_deadline [where env = "ok_env\<lparr>tlsClientHandshake := (\<lambda>n. Some (Err ''bad certificate''))\<rparr>"
      and c = "\<lparr>Deadline = None, Done = False\<rparr>" and n = 1 and e = "Err ''bad certificate''"]
    C6_tls_handshake_deadline [where env = "ok_env\<lparr>tlsClientHandshake := (\<lambda>n. Some (Err ''bad certificate''))\<rparr>"
      and c = "\<lparr>Deadline = Some 30, Done = False\<rparr>" and n = 1 and dl = 30
      and e = "Err ''bad certificate''"]
    C6_tls_handshake_deadline [where env = "ok_env\<lparr>tlsServerHandshake := (\<lambda>n. Some (Err ''timeout''))\<rparr>"
      and c = "\<lparr>Deadline = Some 30, Done = False\<rparr>" and tgt = "''mgr:4335''" and n = 1
      and dl = 30 and e = "Err ''timeout''"]
  by (simp add: ok_env_def)

section \<open>Properties of the transport and the session factory\<close>

text \<open>Close of a transport is Close of its dialer on its stream, followed by the
  \<^verbatim>\<open>ConnectionClosed\<close> hook; the hook is given a nil error whatever the dialer returned.\<close>

lemma Transport_Close_delegates:
  "Transport_Close env t =
     (fst (Dialer_Close env (dialer t) (conn t)) @ [ConnectionClosed (target t) None],
      snd (Dialer_Close env (dialer t) (conn t)))"
  by (simp add: Transport_Close_def Dialer_Close_nil split: option.splits prod.splits)

lemma Dialer_Dial_no_merge: "MergeDefaults \<notin> set (fst (Dialer_Dial env c d))"
  by (cases d)
    (auto simp: SSHDialer_Dial_def SSHClientDialer_Dial_def TLSDialer_Dial_def apply_deadline_def
      split: sum.splits option.splits)

lemma Dialer_Close_no_merge: "MergeDefaults \<notin> set (fst (Dialer_Close env d cn))"
  using Dialer_Close_only_closes [of env d cn] by auto

lemma NewTransport_no_merge: "MergeDefaults \<notin> set (fst (NewTransport env c d))"
  using Dialer_Dial_no_merge [of env c d] Dialer_Close_no_merge [of env d]
  by (auto simp: NewTransport_def Let_def split: prod.splits option.splits)

lemma NewTransport_starts:
  "\<exists>rest. fst (NewTransport env c d) = ConnectStart (Dialer_Target env d) # rest"
  by (auto simp: NewTransport_def Let_def split: prod.splits option.splits)

lemma NewTransport_Inr:
  "NewTransport env c d = (tevs, Inr t) \<Longrightarrow>
     dialer t = d \<and> target t = Dialer_Target env d \<and>
     Dialer_Dial env c d = (butlast (tl tevs), conn t, None) \<and>
     tevs = ConnectStart (Dialer_Target env d) # butlast (tl tevs) @
              [ConnectDone (Dialer_Target env d) None]"
  by (auto simp: NewTransport_def Let_def split: prod.splits option.splits)

lemma count_list_absent: "x \<notin> set xs \<Longrightarrow> count_list xs x = 0"
  by (induction xs) auto

text \<open>
  Claim C5. Close of a transport is to emit \<^verbatim>\<open>ConnectionClosed\<close> with the target and the
  error that \<^verbatim>\<open>dialer.Close\<close> returned, and to return that error. The code returns the
  error, and reports nil in the event: on a transport over a fresh TLS dial whose connection
  fails to close with "broken pipe", the event carries no error.
\<close>

theorem C5_connection_closed_reports_nil:
  "Transport_Close (ok_env\<lparr>closeErr := (\<lambda>r. Some (Err ''broken pipe''))\<rparr>)
        \<lparr>conn = Some (TlsConn 1), target = ''host:6513'', dialer = TLSDialer ''host:6513''\<rparr>
   = ([Close (Tls 1), ConnectionClosed ''host:6513'' None], Some (Err ''broken pipe''))"
  by (simp add: Transport_Close_def ok_env_def)

text \<open>
  Claim C7. The factory, given a configuration, returns (it does not panic) with the
  caller's record, and every other record in memory, as it was; it merges the defaults
  exactly once, as its first step, before the transport is constructed; when the transport
  is constructed, the session layer is given the merged record and the factory returns what
  the session layer returned. In the merged record a field that the caller left at zero
  has the default's value and a field that the caller set has the caller's value.
\<close>

theorem C7_defaults_merged_once:
  "(case NewRPCSessionFromDialer env NewSession c d (Some a) h of
      Panics p \<Rightarrow> False
    | Returns (evs, h', s, err) \<Rightarrow>
        h' = h \<and> count_list evs MergeDefaults = 1 \<and>
        take 2 evs = [MergeDefaults, ConnectStart (Dialer_Target env d)] \<and>
        (case NewTransport env c d of
           (tevs, Inl e) \<Rightarrow> s = None \<and> err = Some e
         | (tevs, Inr t) \<Rightarrow> (s, err) = NewSession t (mergo_Merge (h a) (h DefaultConfig))))
   \<and> (\<forall>field. h a field = 0 \<longrightarrow> mergo_Merge (h a) (h DefaultConfig) field = h DefaultConfig field)
   \<and> (\<forall>field. h a field \<noteq> 0 \<longrightarrow> mergo_Merge (h a) (h DefaultConfig) field = h a field)"
proof -
  obtain tevs r where nt: "NewTransport env c d = (tevs, r)"
    by (cases "NewTransport env c d")
  obtain rest where st: "tevs = ConnectStart (Dialer_Target env d) # rest"
    using NewTransport_starts [of env c d] nt by auto
  have "MergeDefaults \<notin> set tevs"
    using NewTransport_no_merge [of env c d] nt by simp
  then have cnt: "count_list tevs MergeDefaults = 0"
    by (rule count_list_absent)
  have "\<And>t. MergeDefaults \<notin> set (fst (Transport_Close env t))"
    using Dialer_Close_no_merge by (simp add: Transport_Close_delegates)
  then have cnc: "\<And>t. count_list (fst (Transport_Close env t)) MergeDefaults = 0"
    by (rule count_list_absent)
  show ?thesis
    using nt cnt cnc
    by (cases r; cases "NewSession (projr r) (mergo_Merge (h a) (h DefaultConfig))")
       (auto simp: NewRPCSessionFromDialer_def mergo_Merge_def st split: option.splits)
qed

theorem C7_defaults_merged_once_witness:
  "NewRPCSessionFromDialer ok_env (\<lambda>t cfg. (Some (nat (cfg ''timeout'')), None))
     \<lparr>Deadline = None, Done = False\<rparr> (TLSConnDialer 1) (Some 1)
     (\<lambda>a field. if a = 0 \<and> field = ''timeout'' then 5 else 0) =
   Returns ([MergeDefaults, ConnectStart ''192.0.2.1:830'', ConnectDone ''192.0.2.1:830'' None,
             EstablishSession],
            (\<lambda>a field. if a = 0 \<and> field = ''timeout'' then 5 else 0), Some 5, None)
   \<and> mergo_Merge ((\<lambda>a field. if a = 0 \<and> field = ''timeout'' then 5 else 0) (1::nat))
       ((\<lambda>a field. if a = 0 \<and> field = ''timeout'' then 5 else 0) DefaultConfig)
       ''timeout'' = 5
   \<and> mergo_Merge (\<lambda>field. 7) ((\<lambda>a field. 5) DefaultConfig) ''timeout'' = 7"
  using C7_defaults_merged_once [where env = ok_env
      and NewSession = "\<lambda>t cfg. (Some (nat (cfg ''timeout'')), None)"
      and c = "\<lparr>Deadline = None, Done = False\<rparr>" and d = "TLSConnDialer 1" and a = 1
      and h = "\<lambda>a field. if a = 0 \<and> field = ''timeout'' then 5 else 0"]
    C7_defaults_merged_once [where h = "\<lambda>a field. if a = 1 then 7 else 5" and a = 1,
      THEN conjunct2, THEN conjunct2, rule_format, of "''timeout''"]
  by (simp add: NewRPCSessionFromDialer_def NewTransport_def mergo_Merge_def DefaultConfig_def
      ok_env_def Let_def)

text \<open>
  Claim C8. When the transport is constructed and session establishment then fails, the
  factory, after the call of the session layer and before it returns, closes the transport:
  Close of the dialer on the very stream that Dial returned, then the
  \<^verbatim>\<open>ConnectionClosed\<close> hook. It returns the error with no session (session establishment
  failing with no session).
\<close>

theorem C8_failed_session_closes_transport:
  assumes "NewTransport env c d = (tevs, Inr t)"
    and "NewSession t (mergo_Merge (h a) (h DefaultConfig)) = r"
    and "snd r = Some err"
    and "fails_without_session r"
  shows "NewRPCSessionFromDialer env NewSession c d (Some a) h =
           Returns (MergeDefaults # tevs @ EstablishSession #
                      fst (Dialer_Close env d (conn t)) @
                      [ConnectionClosed (Dialer_Target env d) None],
                    h, None, Some err)
         \<and> fst (snd (Dialer_Dial env c d)) = conn t"
proof -
  have t: "dialer t = d" "target t = Dialer_Target env d"
    "fst (snd (Dialer_Dial env c d)) = conn t"
    using NewTransport_Inr [OF assms(1)] by simp_all
  from assms(3,4) have r: "r = (None, Some err)"
    by (cases r) (simp add: fails_without_session_def)
  show ?thesis
    using assms(1,2) r t by (simp add: NewRPCSessionFromDialer_def Transport_Close_delegates)
qed

theorem C8_failed_session_closes_transport_witness:
  "NewRPCSessionFromDialer ok_env (\<lambda>t cfg. (None, Some (Err ''hello timeout'')))
     \<lparr>Deadline = None, Done = False\<rparr> (SSHDialer ''host:830'') (Some 1) (\<lambda>a field. 0) =
   Returns ([MergeDefaults, ConnectStart ''host:830'', DialStart ''host:830'',
             DialDone ''host:830'' None, ConnectDone ''host:830'' None, EstablishSession,
             Close (Session 2), Close (Client 1), ConnectionClosed ''host:830'' None],
            (\<lambda>a field. 0), None, Some (Err ''hello timeout''))"
proof -
  let ?t = "\<lparr>conn = Some (SshConn (Some 1) (Some 2) None), target = ''host:830'',
             dialer = SSHDialer ''host:830''\<rparr>"
  let ?c = "\<lparr>Deadline = None, Done = False\<rparr>"
  let ?r = "(None :: nat option, Some (Err ''hello timeout''))"
  have a: "NewTransport ok_env ?c (SSHDialer ''host:830'') =
      ([ConnectStart ''host:830'', DialStart ''host:830'', DialDone ''host:830'' None,
        ConnectDone ''host:830'' None], Inr ?t)"
    by (simp add: NewTransport_def SSHDialer_Dial_def ok_env_def Let_def)
  have b: "(\<lambda>t cfg. ?r) ?t (mergo_Merge ((\<lambda>a field. 0) (1::nat)) ((\<lambda>a field. 0) DefaultConfig)) = ?r"
    by simp
  have c: "snd ?r = Some (Err ''hello timeout'')"
    by simp
  have d: "fails_without_session ?r"
    by (simp add: fails_without_session_def)
  show ?thesis
    using C8_failed_session_closes_transport [OF a b c d]
    by (simp add: close_keep_first_def ok_env_def)
qed

end
